theory Spec2Isabelle
  imports Complex_Main "HOL-Library.Word"
begin

section \<open>Vectors and the GLM calls the sources use\<close>

text \<open>
  The sources compute with \<open>float\<close>, \<open>double\<close> and \<open>glm::vec3\<close>. Numbers are
  modelled as real numbers: finite values, arithmetic without rounding. GLM is a
  third-party library; its functions are modelled by their documented definitions:
  \<open>radians d = d * pi / 180\<close>, \<open>normalize v = v * inversesqrt (dot v v)\<close>.
  The matrices built by \<open>lookAt\<close>, \<open>ortho\<close> and \<open>perspective\<close> are kept as the
  call with its arguments.
\<close>

datatype vec3 = Vec3 (vec_x: real) (vec_y: real) (vec_z: real)

definition vadd :: "vec3 \<Rightarrow> vec3 \<Rightarrow> vec3" where
  "vadd a b = Vec3 (vec_x a + vec_x b) (vec_y a + vec_y b) (vec_z a + vec_z b)"

definition vsub :: "vec3 \<Rightarrow> vec3 \<Rightarrow> vec3" where
  "vsub a b = Vec3 (vec_x a - vec_x b) (vec_y a - vec_y b) (vec_z a - vec_z b)"

definition smul :: "real \<Rightarrow> vec3 \<Rightarrow> vec3" where
  "smul k a = Vec3 (k * vec_x a) (k * vec_y a) (k * vec_z a)"

definition glm_dot :: "vec3 \<Rightarrow> vec3 \<Rightarrow> real" where
  "glm_dot a b = vec_x a * vec_x b + vec_y a * vec_y b + vec_z a * vec_z b"

definition glm_cross :: "vec3 \<Rightarrow> vec3 \<Rightarrow> vec3" where
  "glm_cross a b =
     Vec3 (vec_y a * vec_z b - vec_y b * vec_z a)
          (vec_z a * vec_x b - vec_z b * vec_x a)
          (vec_x a * vec_y b - vec_x b * vec_y a)"

definition glm_normalize :: "vec3 \<Rightarrow> vec3" where
  "glm_normalize v = smul (1 / sqrt (glm_dot v v)) v"

definition glm_radians :: "real \<Rightarrow> real" where
  "glm_radians degrees = degrees * (pi / 180)"

datatype mat4 =
    LookAt vec3 vec3 vec3
  | Ortho (ortho_left: real) (ortho_right: real) (ortho_bottom: real) (ortho_top: real)
      (ortho_zNear: real) (ortho_zFar: real)
  | Perspective real real real real

section \<open>ViewManager.cpp\<close>

subsection \<open>State\<close>

datatype key =
    GLFW_KEY_ESCAPE | GLFW_KEY_W | GLFW_KEY_S | GLFW_KEY_A | GLFW_KEY_D
  | GLFW_KEY_Q | GLFW_KEY_E | GLFW_KEY_P | GLFW_KEY_O

text \<open>
  The variables of the anonymous namespace, followed by the two things outside of
  them that the functions write: the window's close flag
  (\<open>glfwSetWindowShouldClose\<close>) and the lines sent to \<open>std::cout\<close>, oldest first.
\<close>

record view_state =
  cameraPos :: vec3
  cameraFront :: vec3
  cameraUp :: vec3
  lastX :: real
  lastY :: real
  firstMouse :: bool
  yaw :: real
  pitch :: real
  fov :: real
  deltaTime :: real
  lastFrame :: real
  movementSpeed :: real
  orthographicProjection :: bool
  pKeyPressed :: bool
  oKeyPressed :: bool
  windowShouldClose :: bool
  cout :: "string list"

definition WINDOW_WIDTH :: real where
  "WINDOW_WIDTH = 1000"

definition WINDOW_HEIGHT :: real where
  "WINDOW_HEIGHT = 800"

definition initial_state :: view_state where
  "initial_state =
     \<lparr> cameraPos = Vec3 0 3 12,
       cameraFront = Vec3 0 (- 0.2) (- 1),
       cameraUp = Vec3 0 1 0,
       lastX = WINDOW_WIDTH / 2,
       lastY = WINDOW_HEIGHT / 2,
       firstMouse = True,
       yaw = - 90,
       pitch = 0,
       fov = 45,
       deltaTime = 0,
       lastFrame = 0,
       movementSpeed = 2.5,
       orthographicProjection = False,
       pKeyPressed = False,
       oKeyPressed = False,
       windowShouldClose = False,
       cout = [] \<rparr>"

subsection \<open>Mouse\_Position\_Callback\<close>

definition Mouse_Position_Callback :: "view_state \<Rightarrow> real \<Rightarrow> real \<Rightarrow> view_state" where
  "Mouse_Position_Callback s xpos ypos =
     (let s1 = (if firstMouse s
                then s\<lparr>lastX := xpos, lastY := ypos, firstMouse := False\<rparr>
                else s);
          xoffset = xpos - lastX s1;
          yoffset = lastY s1 - ypos;
          s2 = s1\<lparr>lastX := xpos, lastY := ypos\<rparr>;
          sensitivity = 0.1;
          xoffset = xoffset * sensitivity;
          yoffset = yoffset * sensitivity;
          s3 = s2\<lparr>yaw := yaw s2 + xoffset, pitch := pitch s2 + yoffset\<rparr>;
          s4 = (if pitch s3 > 89 then s3\<lparr>pitch := 89\<rparr> else s3);
          s5 = (if pitch s4 < - 89 then s4\<lparr>pitch := - 89\<rparr> else s4);
          direction =
            Vec3 (cos (glm_radians (yaw s5)) * cos (glm_radians (pitch s5)))
                 (sin (glm_radians (pitch s5)))
                 (sin (glm_radians (yaw s5)) * cos (glm_radians (pitch s5)))
      in s5\<lparr>cameraFront := glm_normalize direction\<rparr>)"

text \<open>A sequence of cursor-moved events, each a pair \<open>(xpos, ypos)\<close>, in order.\<close>

fun cursor_events :: "view_state \<Rightarrow> (real \<times> real) list \<Rightarrow> view_state" where
  "cursor_events s [] = s"
| "cursor_events s (e # es) = cursor_events (Mouse_Position_Callback s (fst e) (snd e)) es"

subsection \<open>Mouse\_Scroll\_Callback\<close>

definition Mouse_Scroll_Callback :: "view_state \<Rightarrow> real \<Rightarrow> real \<Rightarrow> view_state" where
  "Mouse_Scroll_Callback s xoffset yoffset =
     (let s1 = s\<lparr>movementSpeed := movementSpeed s + yoffset * 0.5\<rparr>;
          s2 = (if movementSpeed s1 < 0.1 then s1\<lparr>movementSpeed := 0.1\<rparr> else s1);
          s3 = (if movementSpeed s2 > 10 then s2\<lparr>movementSpeed := 10\<rparr> else s2)
      in s3)"

text \<open>A sequence of scroll events, each a pair \<open>(xoffset, yoffset)\<close>, in order.\<close>

fun scroll_events :: "view_state \<Rightarrow> (real \<times> real) list \<Rightarrow> view_state" where
  "scroll_events s [] = s"
| "scroll_events s (e # es) = scroll_events (Mouse_Scroll_Callback s (fst e) (snd e)) es"

subsection \<open>ProcessKeyboardEvents\<close>

text \<open>
  \<open>glfwGetKey k\<close> holds when \<open>glfwGetKey(m_pWindow, k) == GLFW_PRESS\<close> in this
  call. The elapsed time of the frame is the variable \<open>deltaTime\<close>.
\<close>

definition ProcessKeyboardEvents :: "view_state \<Rightarrow> (key \<Rightarrow> bool) \<Rightarrow> view_state" where
  "ProcessKeyboardEvents s glfwGetKey =
     (let s0 = (if glfwGetKey GLFW_KEY_ESCAPE then s\<lparr>windowShouldClose := True\<rparr> else s);
          cameraSpeed = movementSpeed s0 * deltaTime s0;
          s1 = (if glfwGetKey GLFW_KEY_W
                then s0\<lparr>cameraPos := vadd (cameraPos s0) (smul cameraSpeed (cameraFront s0))\<rparr>
                else s0);
          s2 = (if glfwGetKey GLFW_KEY_S
                then s1\<lparr>cameraPos := vsub (cameraPos s1) (smul cameraSpeed (cameraFront s1))\<rparr>
                else s1);
          s3 = (if glfwGetKey GLFW_KEY_A
                then s2\<lparr>cameraPos := vsub (cameraPos s2)
                       (smul cameraSpeed (glm_normalize (glm_cross (cameraFront s2) (cameraUp s2))))\<rparr>
                else s2);
          s4 = (if glfwGetKey GLFW_KEY_D
                then s3\<lparr>cameraPos := vadd (cameraPos s3)
                       (smul cameraSpeed (glm_normalize (glm_cross (cameraFront s3) (cameraUp s3))))\<rparr>
                else s3);
          s5 = (if glfwGetKey GLFW_KEY_Q
                then s4\<lparr>cameraPos := vadd (cameraPos s4) (smul cameraSpeed (cameraUp s4))\<rparr>
                else s4);
          s6 = (if glfwGetKey GLFW_KEY_E
                then s5\<lparr>cameraPos := vsub (cameraPos s5) (smul cameraSpeed (cameraUp s5))\<rparr>
                else s5);
          s7 = (if glfwGetKey GLFW_KEY_P
                then (if \<not> pKeyPressed s6
                      then s6\<lparr>orthographicProjection := False, pKeyPressed := True,
                              cout := cout s6 @ [''Switched to Perspective Projection'']\<rparr>
                      else s6)
                else s6\<lparr>pKeyPressed := False\<rparr>);
          s8 = (if glfwGetKey GLFW_KEY_O
                then (if \<not> oKeyPressed s7
                      then s7\<lparr>orthographicProjection := True, oKeyPressed := True,
                              cout := cout s7 @ [''Switched to Orthographic Projection'']\<rparr>
                      else s7)
                else s7\<lparr>oKeyPressed := False\<rparr>)
      in s8)"

text \<open>
  The specification's table of movement keys, to compare \<open>ProcessKeyboardEvents\<close>
  with: the direction it gives to each key, the null vector for a key that does not
  move the camera.
\<close>

definition spec_key_direction :: "view_state \<Rightarrow> key \<Rightarrow> vec3" where
  "spec_key_direction s k =
     (if k = GLFW_KEY_W then cameraFront s
      else if k = GLFW_KEY_S then smul (- 1) (cameraFront s)
      else if k = GLFW_KEY_D then glm_normalize (glm_cross (cameraFront s) (cameraUp s))
      else if k = GLFW_KEY_A then smul (- 1) (glm_normalize (glm_cross (cameraFront s) (cameraUp s)))
      else if k = GLFW_KEY_Q then cameraUp s
      else if k = GLFW_KEY_E then smul (- 1) (cameraUp s)
      else Vec3 0 0 0)"

subsection \<open>PrepareSceneView\<close>

text \<open>
  Modelled from the spec: the class \<open>ShaderManager\<close> is not among the sources; it is
  the table of named shader uniform slots, and each \<open>set...Value\<close> stores a value
  under a name. A null \<open>m_pShaderManager\<close> is \<open>None\<close>.
\<close>

datatype uniform =
    UInt int
  | UFloat real
  | UVec2 real real
  | UVec3 vec3
  | UMat4 mat4
  | USampler2D int

type_synonym ShaderManager = "string \<rightharpoonup> uniform"

definition setIntValue :: "ShaderManager \<Rightarrow> string \<Rightarrow> int \<Rightarrow> ShaderManager" where
  "setIntValue sh name v = sh(name \<mapsto> UInt v)"

definition setFloatValue :: "ShaderManager \<Rightarrow> string \<Rightarrow> real \<Rightarrow> ShaderManager" where
  "setFloatValue sh name v = sh(name \<mapsto> UFloat v)"

definition setVec3Value :: "ShaderManager \<Rightarrow> string \<Rightarrow> vec3 \<Rightarrow> ShaderManager" where
  "setVec3Value sh name v = sh(name \<mapsto> UVec3 v)"

definition setMat4Value :: "ShaderManager \<Rightarrow> string \<Rightarrow> mat4 \<Rightarrow> ShaderManager" where
  "setMat4Value sh name v = sh(name \<mapsto> UMat4 v)"

definition setSampler2DValue :: "ShaderManager \<Rightarrow> string \<Rightarrow> int \<Rightarrow> ShaderManager" where
  "setSampler2DValue sh name v = sh(name \<mapsto> USampler2D v)"

definition g_ViewName :: string where
  "g_ViewName = ''view''"

definition g_ProjectionName :: string where
  "g_ProjectionName = ''projection''"

text \<open>
  \<open>currentFrame\<close> is the value \<open>glfwGetTime()\<close> returns in this call,
  \<open>glfwGetKey\<close> the key states that \<open>ProcessKeyboardEvents\<close> polls, and
  \<open>m_pShaderManager\<close> the member of the \<open>ViewManager\<close> object. The result is the
  new state of the variables and of the shader manager.
\<close>

definition PrepareSceneView ::
  "view_state \<Rightarrow> ShaderManager option \<Rightarrow> real \<Rightarrow> (key \<Rightarrow> bool)
     \<Rightarrow> view_state \<times> ShaderManager option" where
  "PrepareSceneView s m_pShaderManager currentFrame glfwGetKey =
     (let s1 = s\<lparr>deltaTime := currentFrame - lastFrame s\<rparr>;
          s2 = s1\<lparr>lastFrame := currentFrame\<rparr>;
          s3 = ProcessKeyboardEvents s2 glfwGetKey;
          view = LookAt (cameraPos s3) (vadd (cameraPos s3) (cameraFront s3)) (cameraUp s3);
          projection =
            (if orthographicProjection s3
             then (let orthoSize = 15;
                       aspectRatio = WINDOW_WIDTH / WINDOW_HEIGHT
                   in Ortho (- orthoSize * aspectRatio / 2)
                            (orthoSize * aspectRatio / 2)
                            (- orthoSize / 2)
                            (orthoSize / 2)
                            0.1
                            100)
             else Perspective (glm_radians (fov s3)) (WINDOW_WIDTH / WINDOW_HEIGHT) 0.1 100)
      in case m_pShaderManager of
           None \<Rightarrow> (s3, None)
         | Some sh \<Rightarrow>
             (s3, Some (setVec3Value
                          (setMat4Value (setMat4Value sh g_ViewName view) g_ProjectionName projection)
                          ''viewPosition'' (cameraPos s3))))"

text \<open>The value of a uniform slot, read through the pointer to the shader manager.\<close>

definition uniform_of :: "ShaderManager option \<Rightarrow> string \<Rightarrow> uniform option" where
  "uniform_of pShaderManager name =
     (case pShaderManager of None \<Rightarrow> None | Some sh \<Rightarrow> sh name)"

text \<open>
  A run of frames: each frame is the clock value and the key states of one call of
  \<open>PrepareSceneView\<close>.
\<close>

fun frames ::
  "view_state \<times> ShaderManager option \<Rightarrow> (real \<times> (key \<Rightarrow> bool)) list
     \<Rightarrow> view_state \<times> ShaderManager option" where
  "frames c [] = c"
| "frames c (f # fs) = frames (PrepareSceneView (fst c) (snd c) (fst f) (snd f)) fs"

section \<open>SceneManager.cpp\<close>

subsection \<open>State\<close>

text \<open>
  The declarations of \<open>SceneManager.h\<close> are not among the sources; the members below
  are the ones the functions of \<open>SceneManager.cpp\<close> read and write. \<open>m_textureIDs\<close> is
  a fixed-size array, a list whose length never changes; \<open>m_objectMaterials\<close> is a
  \<open>std::vector\<close>. \<open>m_loadedTextures\<close> is an \<open>int\<close> that starts at 0 and is only
  incremented, a natural number here. The lines sent to \<open>std::cout\<close> are kept by kind.
\<close>

record TEXTURE_INFO =
  ID :: "32 word"
  tag :: string

record OBJECT_MATERIAL =
  ambientColor :: vec3
  ambientStrength :: real
  diffuseColor :: vec3
  specularColor :: vec3
  shininess :: real
  material_tag :: string

datatype scene_log =
    Successfully_loaded_image string int int int
  | Not_implemented_channels int
  | Could_not_load_image string

record scene_state =
  m_pShaderManager :: "ShaderManager option"
  m_textureIDs :: "TEXTURE_INFO list"
  m_loadedTextures :: nat
  m_objectMaterials :: "OBJECT_MATERIAL list"
  scene_cout :: "scene_log list"

text \<open>
  Modelled from the spec: the declaration of \<open>m_textureIDs\<close> is in the missing header;
  its capacity is the 16 slots that the comment of \<open>BindGLTextures\<close> documents.
\<close>

definition MAX_TEXTURES :: nat where
  "MAX_TEXTURES = 16"

text \<open>
  The constructor sets \<open>m_loadedTextures = 0\<close>; the array holds default-constructed
  entries, whose \<open>ID\<close> is indeterminate in C++ and given as \<open>slots\<close>.
\<close>

definition SceneManager :: "ShaderManager option \<Rightarrow> TEXTURE_INFO list \<Rightarrow> scene_state" where
  "SceneManager pShaderManager slots =
     \<lparr> m_pShaderManager = pShaderManager,
       m_textureIDs = slots,
       m_loadedTextures = 0,
       m_objectMaterials = [],
       scene_cout = [] \<rparr>"

text \<open>What C++ leaves undefined is a fault of the model.\<close>

datatype fault = OutOfBounds | NullPointer

subsection \<open>CreateGLTexture\<close>

record stbi_image =
  width :: int
  height :: int
  colorChannels :: int

text \<open>
  \<open>stbi_load\<close> is what the decoder returns for \<open>filename\<close> (\<open>None\<close> for a null
  pointer) and \<open>glGenTextures\<close> the texture name that OpenGL hands out. The OpenGL
  calls configure and fill that texture object only; they touch no member.
\<close>

definition CreateGLTexture ::
  "scene_state \<Rightarrow> string \<Rightarrow> string \<Rightarrow> stbi_image option \<Rightarrow> 32 word
     \<Rightarrow> fault + (bool \<times> scene_state)" where
  "CreateGLTexture s filename t stbi_load glGenTextures =
     (case stbi_load of
        Some image_data \<Rightarrow>
          (let s1 = s\<lparr>scene_cout := scene_cout s @
                       [Successfully_loaded_image filename (width image_data) (height image_data)
                          (colorChannels image_data)]\<rparr>;
               textureID = glGenTextures
           in if colorChannels image_data = 3 \<or> colorChannels image_data = 4
              then (if m_loadedTextures s1 < length (m_textureIDs s1)
                    then Inr (True,
                           s1\<lparr>m_textureIDs := (m_textureIDs s1)
                                 [m_loadedTextures s1 := \<lparr>ID = textureID, tag = t\<rparr>],
                               m_loadedTextures := m_loadedTextures s1 + 1\<rparr>)
                    else Inl OutOfBounds)
              else Inr (False,
                     s1\<lparr>scene_cout := scene_cout s1 @
                          [Not_implemented_channels (colorChannels image_data)]\<rparr>))
      | None \<Rightarrow>
          Inr (False, s\<lparr>scene_cout := scene_cout s @ [Could_not_load_image filename]\<rparr>))"

text \<open>
  Loading several textures one after the other, as \<open>PrepareScene\<close> does; each load is
  the file name, the tag, the decoder's result and the texture name. The return values
  are collected; a fault ends the run.
\<close>

fun load_textures ::
  "scene_state \<Rightarrow> (string \<times> string \<times> stbi_image option \<times> 32 word) list
     \<Rightarrow> fault + (bool list \<times> scene_state)" where
  "load_textures s [] = Inr ([], s)"
| "load_textures s ((filename, t, img, tid) # ls) =
     (case CreateGLTexture s filename t img tid of
        Inl f \<Rightarrow> Inl f
      | Inr (b, s') \<Rightarrow>
          (case load_textures s' ls of
             Inl f \<Rightarrow> Inl f
           | Inr (bs, s'') \<Rightarrow> Inr (b # bs, s'')))"

subsection \<open>FindTextureID, FindTextureSlot, FindMaterial\<close>

text \<open>
  Each \<open>while\<close> loop is a recursive function of the loop's variables. A read of
  \<open>m_textureIDs\<close> past the array's end is a fault.
\<close>

function FindTextureID_while ::
  "scene_state \<Rightarrow> string \<Rightarrow> int \<Rightarrow> nat \<Rightarrow> bool \<Rightarrow> fault + int" where
  "FindTextureID_while s t textureID index bFound =
     (if index < m_loadedTextures s \<and> bFound = False
      then (if index < length (m_textureIDs s)
            then (if tag (m_textureIDs s ! index) = t
                  then FindTextureID_while s t (sint (ID (m_textureIDs s ! index))) index True
                  else FindTextureID_while s t textureID (index + 1) bFound)
            else Inl OutOfBounds)
      else Inr textureID)"
  by pat_completeness auto
termination
  by (relation "measure (\<lambda>(s, t, textureID, index, bFound).
        2 * (m_loadedTextures s - index) + (if bFound then 0 else 1))") auto

definition FindTextureID :: "scene_state \<Rightarrow> string \<Rightarrow> fault + int" where
  "FindTextureID s t = FindTextureID_while s t (- 1) 0 False"

function FindTextureSlot_while ::
  "scene_state \<Rightarrow> string \<Rightarrow> int \<Rightarrow> nat \<Rightarrow> bool \<Rightarrow> fault + int" where
  "FindTextureSlot_while s t textureSlot index bFound =
     (if index < m_loadedTextures s \<and> bFound = False
      then (if index < length (m_textureIDs s)
            then (if tag (m_textureIDs s ! index) = t
                  then FindTextureSlot_while s t (int index) index True
                  else FindTextureSlot_while s t textureSlot (index + 1) bFound)
            else Inl OutOfBounds)
      else Inr textureSlot)"
  by pat_completeness auto
termination
  by (relation "measure (\<lambda>(s, t, textureSlot, index, bFound).
        2 * (m_loadedTextures s - index) + (if bFound then 0 else 1))") auto

definition FindTextureSlot :: "scene_state \<Rightarrow> string \<Rightarrow> fault + int" where
  "FindTextureSlot s t = FindTextureSlot_while s t (- 1) 0 False"

function FindMaterial_while ::
  "scene_state \<Rightarrow> string \<Rightarrow> OBJECT_MATERIAL \<Rightarrow> nat \<Rightarrow> bool \<Rightarrow> bool \<times> OBJECT_MATERIAL" where
  "FindMaterial_while s t material index bFound =
     (if index < length (m_objectMaterials s) \<and> bFound = False
      then (if material_tag (m_objectMaterials s ! index) = t
            then FindMaterial_while s t
                   (material\<lparr>ambientColor := ambientColor (m_objectMaterials s ! index),
                              ambientStrength := ambientStrength (m_objectMaterials s ! index),
                              diffuseColor := diffuseColor (m_objectMaterials s ! index),
                              specularColor := specularColor (m_objectMaterials s ! index),
                              shininess := shininess (m_objectMaterials s ! index)\<rparr>)
                   index True
            else FindMaterial_while s t material (index + 1) bFound)
      else (bFound, material))"
  by pat_completeness auto
termination
  by (relation "measure (\<lambda>(s, t, material, index, bFound).
        2 * (length (m_objectMaterials s) - index) + (if bFound then 0 else 1))") auto

declare FindTextureID_while.simps [simp del]
declare FindTextureSlot_while.simps [simp del]
declare FindMaterial_while.simps [simp del]

text \<open>The result is the returned flag and the caller's \<open>material\<close> after the call.\<close>

definition FindMaterial ::
  "scene_state \<Rightarrow> string \<Rightarrow> OBJECT_MATERIAL \<Rightarrow> bool \<times> OBJECT_MATERIAL" where
  "FindMaterial s t material =
     (if length (m_objectMaterials s) = 0
      then (False, material)
      else FindMaterial_while s t material 0 False)"

subsection \<open>SetShaderTexture, SetShaderMaterial\<close>

definition g_TextureValueName :: string where
  "g_TextureValueName = ''objectTexture''"

definition g_UseTextureName :: string where
  "g_UseTextureName = ''bUseTexture''"

definition SetShaderTexture :: "scene_state \<Rightarrow> string \<Rightarrow> fault + scene_state" where
  "SetShaderTexture s textureTag =
     (case m_pShaderManager s of
        None \<Rightarrow> Inr s
      | Some sh \<Rightarrow>
          (let s1 = s\<lparr>m_pShaderManager := Some (setIntValue sh g_UseTextureName 1)\<rparr>
           in case FindTextureSlot s1 textureTag of
                Inl f \<Rightarrow> Inl f
              | Inr textureID \<Rightarrow>
                  Inr (s1\<lparr>m_pShaderManager :=
                         map_option (\<lambda>sh1. setSampler2DValue sh1 g_TextureValueName textureID)
                           (m_pShaderManager s1)\<rparr>)))"

text \<open>
  \<open>material\<close> is the uninitialised local of the function. The shader manager is used
  without a null check when the material is found.
\<close>

definition SetShaderMaterial ::
  "scene_state \<Rightarrow> OBJECT_MATERIAL \<Rightarrow> string \<Rightarrow> fault + scene_state" where
  "SetShaderMaterial s material materialTag =
     (if length (m_objectMaterials s) > 0
      then (let (bReturn, material1) = FindMaterial s materialTag material
            in if bReturn = True
               then (case m_pShaderManager s of
                       None \<Rightarrow> Inl NullPointer
                     | Some sh \<Rightarrow>
                         Inr (s\<lparr>m_pShaderManager := Some
                           (setFloatValue
                             (setVec3Value
                               (setVec3Value
                                 (setFloatValue
                                   (setVec3Value sh ''material.ambientColor'' (ambientColor material1))
                                   ''material.ambientStrength'' (ambientStrength material1))
                                 ''material.diffuseColor'' (diffuseColor material1))
                               ''material.specularColor'' (specularColor material1))
                             ''material.shininess'' (shininess material1))\<rparr>))
               else Inr s)
      else Inr s)"

subsection \<open>A scene to evaluate the lookups on\<close>

text \<open>
  One texture registered in an array of two slots, one material, and a shader manager
  with no uniform stored yet.
\<close>

definition example_scene :: scene_state where
  "example_scene =
     \<lparr> m_pShaderManager = Some Map.empty,
       m_textureIDs = [\<lparr>ID = 1, tag = ''plate''\<rparr>, \<lparr>ID = 0, tag = ''''\<rparr>],
       m_loadedTextures = 1,
       m_objectMaterials =
         [\<lparr>ambientColor = Vec3 0.2 0.2 0.2, ambientStrength = 0.3,
           diffuseColor = Vec3 0.9 0.9 0.9, specularColor = Vec3 0.8 0.8 0.8,
           shininess = 64, material_tag = ''plate''\<rparr>],
       scene_cout = [] \<rparr>"

section \<open>Properties of the cursor and scroll callbacks\<close>

lemma Mouse_Position_Callback_pitch:
  "pitch (Mouse_Position_Callback s xpos ypos) =
     max (- 89) (min 89 (pitch s + (lastY (if firstMouse s then s\<lparr>lastY := ypos\<rparr> else s) - ypos) * 0.1))"
  by (simp add: Mouse_Position_Callback_def Let_def)

lemma Mouse_Position_Callback_pitch_range:
  "- 89 \<le> pitch (Mouse_Position_Callback s xpos ypos) \<and>
   pitch (Mouse_Position_Callback s xpos ypos) \<le> 89"
  unfolding Mouse_Position_Callback_pitch by simp

lemma cursor_events_pitch_range:
  "- 89 \<le> pitch s \<and> pitch s \<le> 89 \<Longrightarrow>
   - 89 \<le> pitch (cursor_events s es) \<and> pitch (cursor_events s es) \<le> 89"
proof (induction es arbitrary: s)
  case Nil
  then show ?case by simp
next
  case (Cons e es)
  show ?case
    using Cons.IH [OF Mouse_Position_Callback_pitch_range] by simp
qed

text \<open>
  C1. Starting from the initial state, where \<open>pitch = 0\<close>, the pitch lies in
  \<open>[-89, 89]\<close> after every event of any sequence of cursor-moved events: after
  the first \<open>n\<close> events of the sequence, for every \<open>n\<close>, and so after all of
  them.
\<close>

theorem pitch_invariant:
  "- 89 \<le> pitch (cursor_events initial_state (take n es)) \<and>
   pitch (cursor_events initial_state (take n es)) \<le> 89 \<and>
   - 89 \<le> pitch (cursor_events initial_state es) \<and>
   pitch (cursor_events initial_state es) \<le> 89"
proof -
  have "- 89 \<le> pitch initial_state \<and> pitch initial_state \<le> 89"
    by (simp add: initial_state_def)
  from cursor_events_pitch_range [OF this, of "take n es"]
       cursor_events_pitch_range [OF this, of es]
  show ?thesis by simp
qed

theorem pitch_invariant_witness:
  "pitch (cursor_events initial_state [(500, 400), (500, - 2000), (500, 9000)]) = - 89"
  using pitch_invariant [of 2 "[(500, 400), (500, - 2000), (500, 9000)]"]
  by (simp add: Mouse_Position_Callback_pitch Mouse_Position_Callback_def Let_def initial_state_def)

lemma glm_radians_simps:
  "glm_radians 0 = 0" "glm_radians (- 90) = - (pi / 2)"
  by (simp_all add: glm_radians_def)

text \<open>
  C2. The claim is that the first cursor-moved event records the baseline and leaves
  yaw, pitch and the front vector as they were. The code does not return after
  recording the baseline: it goes on with zero offsets and recomputes the front vector
  from yaw and pitch. In the initial state the front vector is the seed
  \<open>(0, -0.2, -1)\<close>, which is not the direction of \<open>yaw = -90\<close>, \<open>pitch = 0\<close>; the
  first event at \<open>(500, 400)\<close> replaces it by \<open>(0, 0, -1)\<close>, while yaw and pitch
  stay and the baseline is recorded.
\<close>

theorem first_cursor_event_changes_front:
  "firstMouse initial_state \<and>
   cameraFront initial_state = Vec3 0 (- 0.2) (- 1) \<and>
   cameraFront (Mouse_Position_Callback initial_state 500 400) = Vec3 0 0 (- 1) \<and>
   cameraFront (Mouse_Position_Callback initial_state 500 400) \<noteq> cameraFront initial_state \<and>
   yaw (Mouse_Position_Callback initial_state 500 400) = yaw initial_state \<and>
   pitch (Mouse_Position_Callback initial_state 500 400) = pitch initial_state \<and>
   lastX (Mouse_Position_Callback initial_state 500 400) = 500 \<and>
   lastY (Mouse_Position_Callback initial_state 500 400) = 400"
  by (simp add: Mouse_Position_Callback_def initial_state_def Let_def glm_radians_simps
      glm_normalize_def glm_dot_def smul_def)

lemma Mouse_Position_Callback_not_first:
  assumes "\<not> firstMouse s"
  shows "Mouse_Position_Callback s xpos ypos =
     s\<lparr>cameraFront := glm_normalize
          (Vec3 (cos (glm_radians (yaw s + (xpos - lastX s) * 0.1)) *
                 cos (glm_radians (max (- 89) (min 89 (pitch s + (lastY s - ypos) * 0.1)))))
                (sin (glm_radians (max (- 89) (min 89 (pitch s + (lastY s - ypos) * 0.1)))))
                (sin (glm_radians (yaw s + (xpos - lastX s) * 0.1)) *
                 cos (glm_radians (max (- 89) (min 89 (pitch s + (lastY s - ypos) * 0.1)))))),
        lastX := xpos,
        lastY := ypos,
        yaw := yaw s + (xpos - lastX s) * 0.1,
        pitch := max (- 89) (min 89 (pitch s + (lastY s - ypos) * 0.1))\<rparr>"
  using assms by (simp add: Mouse_Position_Callback_def Let_def min_def max_def)

text \<open>
  C4. A cursor-moved event that is not the first one adds \<open>0.1 * (x - lastX)\<close> to yaw
  and \<open>0.1 * (lastY - y)\<close> to pitch, clamps pitch to \<open>[-89, 89]\<close>, sets the front
  vector to the normalised direction of the new yaw and pitch, and stores the sample in
  \<open>lastX\<close>, \<open>lastY\<close>; nothing else changes. In particular, with \<open>yaw = -90\<close>, an
  x-offset of 100 and a y-offset of 0, yaw grows by exactly 10 to \<open>-80\<close> and the
  front vector is the one of yaw \<open>-80\<close> and the (clamped) pitch.
\<close>

theorem cursor_event_after_baseline:
  assumes "\<not> firstMouse s"
  shows "Mouse_Position_Callback s xpos ypos =
     s\<lparr>cameraFront := glm_normalize
          (Vec3 (cos (glm_radians (yaw s + (xpos - lastX s) * 0.1)) *
                 cos (glm_radians (max (- 89) (min 89 (pitch s + (lastY s - ypos) * 0.1)))))
                (sin (glm_radians (max (- 89) (min 89 (pitch s + (lastY s - ypos) * 0.1)))))
                (sin (glm_radians (yaw s + (xpos - lastX s) * 0.1)) *
                 cos (glm_radians (max (- 89) (min 89 (pitch s + (lastY s - ypos) * 0.1)))))),
        lastX := xpos,
        lastY := ypos,
        yaw := yaw s + (xpos - lastX s) * 0.1,
        pitch := max (- 89) (min 89 (pitch s + (lastY s - ypos) * 0.1))\<rparr> \<and>
   (yaw s = - 90 \<and> xpos - lastX s = 100 \<and> lastY s - ypos = 0 \<longrightarrow>
      yaw (Mouse_Position_Callback s xpos ypos) = yaw s + 10 \<and>
      yaw (Mouse_Position_Callback s xpos ypos) = - 80 \<and>
      pitch (Mouse_Position_Callback s xpos ypos) = max (- 89) (min 89 (pitch s)) \<and>
      cameraFront (Mouse_Position_Callback s xpos ypos) = glm_normalize
        (Vec3 (cos (glm_radians (- 80)) * cos (glm_radians (max (- 89) (min 89 (pitch s)))))
              (sin (glm_radians (max (- 89) (min 89 (pitch s)))))
              (sin (glm_radians (- 80)) * cos (glm_radians (max (- 89) (min 89 (pitch s)))))))"
proof -
  note eq = Mouse_Position_Callback_not_first [OF assms, of xpos ypos]
  show ?thesis
  proof (rule conjI [OF eq], rule impI)
    assume h: "yaw s = - 90 \<and> xpos - lastX s = 100 \<and> lastY s - ypos = 0"
    then have y: "yaw s + (xpos - lastX s) * 0.1 = - 80"
      and p: "pitch s + (lastY s - ypos) * 0.1 = pitch s"
      by simp_all
    show "yaw (Mouse_Position_Callback s xpos ypos) = yaw s + 10 \<and>
      yaw (Mouse_Position_Callback s xpos ypos) = - 80 \<and>
      pitch (Mouse_Position_Callback s xpos ypos) = max (- 89) (min 89 (pitch s)) \<and>
      cameraFront (Mouse_Position_Callback s xpos ypos) = glm_normalize
        (Vec3 (cos (glm_radians (- 80)) * cos (glm_radians (max (- 89) (min 89 (pitch s)))))
              (sin (glm_radians (max (- 89) (min 89 (pitch s)))))
              (sin (glm_radians (- 80)) * cos (glm_radians (max (- 89) (min 89 (pitch s))))))"
      unfolding eq y p using h by simp
  qed
qed

theorem cursor_event_after_baseline_witness:
  "\<not> firstMouse (Mouse_Position_Callback initial_state 500 400) \<and>
   yaw (Mouse_Position_Callback (Mouse_Position_Callback initial_state 500 400) 600 400) = - 80 \<and>
   pitch (Mouse_Position_Callback (Mouse_Position_Callback initial_state 500 400) 600 400) = 0 \<and>
   lastX (Mouse_Position_Callback (Mouse_Position_Callback initial_state 500 400) 600 400) = 600 \<and>
   lastY (Mouse_Position_Callback (Mouse_Position_Callback initial_state 500 400) 600 400) = 400 \<and>
   cameraFront (Mouse_Position_Callback (Mouse_Position_Callback initial_state 500 400) 600 400) =
     glm_normalize (Vec3 (cos (glm_radians (- 80))) 0 (sin (glm_radians (- 80))))"
proof -
  have nf: "\<not> firstMouse (Mouse_Position_Callback initial_state 500 400)"
    by (simp add: Mouse_Position_Callback_def Let_def)
  have pre: "yaw (Mouse_Position_Callback initial_state 500 400) = - 90"
    "lastX (Mouse_Position_Callback initial_state 500 400) = 500"
    "lastY (Mouse_Position_Callback initial_state 500 400) = 400"
    "pitch (Mouse_Position_Callback initial_state 500 400) = 0"
    by (simp_all add: Mouse_Position_Callback_def Let_def initial_state_def)
  from cursor_event_after_baseline [OF nf, of 600 400] nf show ?thesis
    by (simp add: pre glm_radians_simps)
qed

lemma Mouse_Scroll_Callback_eq:
  "Mouse_Scroll_Callback s xoffset yoffset =
     s\<lparr>movementSpeed := min 10 (max 0.1 (movementSpeed s + yoffset * 0.5))\<rparr>"
  by (simp add: Mouse_Scroll_Callback_def Let_def min_def max_def)

lemma scroll_events_speed_range:
  "0.1 \<le> movementSpeed s \<and> movementSpeed s \<le> 10 \<Longrightarrow>
   0.1 \<le> movementSpeed (scroll_events s es) \<and> movementSpeed (scroll_events s es) \<le> 10"
proof (induction es arbitrary: s)
  case Nil
  then show ?case by simp
next
  case (Cons e es)
  have "0.1 \<le> movementSpeed (Mouse_Scroll_Callback s (fst e) (snd e)) \<and>
        movementSpeed (Mouse_Scroll_Callback s (fst e) (snd e)) \<le> 10"
    by (simp add: Mouse_Scroll_Callback_eq)
  from Cons.IH [OF this] show ?case by simp
qed

text \<open>
  C5. A scroll event replaces \<open>movementSpeed\<close> by the old value plus
  \<open>0.5 * yoffset\<close>, clamped to \<open>[0.1, 10]\<close>, and changes nothing else; the field of
  view in particular stays. From the initial speed 2.5, the speed lies in
  \<open>[0.1, 10]\<close> after every event of any sequence of scroll events.
\<close>

theorem scroll_speed:
  "Mouse_Scroll_Callback s xoffset yoffset =
     s\<lparr>movementSpeed := min 10 (max 0.1 (movementSpeed s + yoffset * 0.5))\<rparr> \<and>
   fov (Mouse_Scroll_Callback s xoffset yoffset) = fov s \<and>
   movementSpeed initial_state = 2.5 \<and>
   0.1 \<le> movementSpeed (scroll_events initial_state (take n es)) \<and>
   movementSpeed (scroll_events initial_state (take n es)) \<le> 10 \<and>
   0.1 \<le> movementSpeed (scroll_events initial_state es) \<and>
   movementSpeed (scroll_events initial_state es) \<le> 10"
proof -
  have "0.1 \<le> movementSpeed initial_state \<and> movementSpeed initial_state \<le> 10"
    by (simp add: initial_state_def)
  from scroll_events_speed_range [OF this, of "take n es"]
       scroll_events_speed_range [OF this, of es]
  show ?thesis
    by (simp add: Mouse_Scroll_Callback_eq initial_state_def)
qed

theorem scroll_speed_witness:
  "movementSpeed (scroll_events initial_state [(0, 40), (0, - 3)]) = 8.5 \<and>
   fov (Mouse_Scroll_Callback initial_state 0 40) = 45"
  using scroll_speed [of initial_state 0 40 1 "[(0, 40), (0, - 3)]"]
  by (simp add: Mouse_Scroll_Callback_eq initial_state_def)

lemma vec_simps:
  "vadd a (smul k (smul (- 1) b)) = vsub a (smul k b)"
  "vadd a (smul 0 b) = a"
  "vsub a (smul 0 b) = a"
  by (cases a; cases b; simp add: vadd_def vsub_def smul_def)+

lemma glm_normalize_unit:
  "glm_dot v v = 1 \<Longrightarrow> glm_normalize v = v"
  by (cases v) (simp add: glm_normalize_def smul_def)

lemma direction_unit:
  "glm_dot (Vec3 (cos a * cos b) (sin b) (sin a * cos b))
           (Vec3 (cos a * cos b) (sin b) (sin a * cos b)) = 1"
proof -
  have a1: "sin a * sin a + cos a * cos a = 1"
    using sin_cos_squared_add [of a] by (simp add: power2_eq_square)
  have b1: "sin b * sin b + cos b * cos b = 1"
    using sin_cos_squared_add [of b] by (simp add: power2_eq_square)
  have "(cos a * cos b) * (cos a * cos b) + sin b * sin b + (sin a * cos b) * (sin a * cos b)
        = (sin a * sin a + cos a * cos a) * (cos b * cos b) + sin b * sin b"
    by algebra
  also have "\<dots> = 1"
    unfolding a1 using b1 by simp
  finally show ?thesis by (simp add: glm_dot_def)
qed

lemma cameraFront_unit_after_cursor_event:
  "glm_dot (cameraFront (Mouse_Position_Callback s xpos ypos))
           (cameraFront (Mouse_Position_Callback s xpos ypos)) = 1"
  by (simp add: Mouse_Position_Callback_def Let_def glm_normalize_unit [OF direction_unit]
      direction_unit)


section \<open>Properties of the frame update\<close>

text \<open>
  \<open>ProcessKeyboardEvents\<close> as one update of the state it is given; the proof walks
  through the statements of the function in order.
\<close>

lemma ProcessKeyboardEvents_eq:
  "ProcessKeyboardEvents s k =
     s\<lparr>cameraPos :=
         (let cameraSpeed = movementSpeed s * deltaTime s;
              right = glm_normalize (glm_cross (cameraFront s) (cameraUp s));
              p1 = (if k GLFW_KEY_W then vadd (cameraPos s) (smul cameraSpeed (cameraFront s)) else cameraPos s);
              p2 = (if k GLFW_KEY_S then vsub p1 (smul cameraSpeed (cameraFront s)) else p1);
              p3 = (if k GLFW_KEY_A then vsub p2 (smul cameraSpeed right) else p2);
              p4 = (if k GLFW_KEY_D then vadd p3 (smul cameraSpeed right) else p3);
              p5 = (if k GLFW_KEY_Q then vadd p4 (smul cameraSpeed (cameraUp s)) else p4);
              p6 = (if k GLFW_KEY_E then vsub p5 (smul cameraSpeed (cameraUp s)) else p5)
          in p6),
       orthographicProjection :=
         (if k GLFW_KEY_O \<and> \<not> oKeyPressed s then True
          else if k GLFW_KEY_P \<and> \<not> pKeyPressed s then False
          else orthographicProjection s),
       pKeyPressed := k GLFW_KEY_P,
       oKeyPressed := k GLFW_KEY_O,
       windowShouldClose := (k GLFW_KEY_ESCAPE \<or> windowShouldClose s),
       cout := cout s
         @ (if k GLFW_KEY_P \<and> \<not> pKeyPressed s then [''Switched to Perspective Projection''] else [])
         @ (if k GLFW_KEY_O \<and> \<not> oKeyPressed s then [''Switched to Orthographic Projection''] else [])\<rparr>"
proof -
  define sp where "sp = movementSpeed s * deltaTime s"
  define right where "right = glm_normalize (glm_cross (cameraFront s) (cameraUp s))"
  define w where "w = (k GLFW_KEY_ESCAPE \<or> windowShouldClose s)"
  define p1 where "p1 = (if k GLFW_KEY_W then vadd (cameraPos s) (smul sp (cameraFront s)) else cameraPos s)"
  define p2 where "p2 = (if k GLFW_KEY_S then vsub p1 (smul sp (cameraFront s)) else p1)"
  define p3 where "p3 = (if k GLFW_KEY_A then vsub p2 (smul sp right) else p2)"
  define p4 where "p4 = (if k GLFW_KEY_D then vadd p3 (smul sp right) else p3)"
  define p5 where "p5 = (if k GLFW_KEY_Q then vadd p4 (smul sp (cameraUp s)) else p4)"
  define p6 where "p6 = (if k GLFW_KEY_E then vsub p5 (smul sp (cameraUp s)) else p5)"
  define s0 where "s0 = (if k GLFW_KEY_ESCAPE then s\<lparr>windowShouldClose := True\<rparr> else s)"
  define s1 where "s1 = (if k GLFW_KEY_W
                then s0\<lparr>cameraPos := vadd (cameraPos s0) (smul sp (cameraFront s0))\<rparr>
                else s0)"
  define s2 where "s2 = (if k GLFW_KEY_S
                then s1\<lparr>cameraPos := vsub (cameraPos s1) (smul sp (cameraFront s1))\<rparr>
                else s1)"
  define s3 where "s3 = (if k GLFW_KEY_A
                then s2\<lparr>cameraPos := vsub (cameraPos s2)
                       (smul sp (glm_normalize (glm_cross (cameraFront s2) (cameraUp s2))))\<rparr>
                else s2)"
  define s4 where "s4 = (if k GLFW_KEY_D
                then s3\<lparr>cameraPos := vadd (cameraPos s3)
                       (smul sp (glm_normalize (glm_cross (cameraFront s3) (cameraUp s3))))\<rparr>
                else s3)"
  define s5 where "s5 = (if k GLFW_KEY_Q
                then s4\<lparr>cameraPos := vadd (cameraPos s4) (smul sp (cameraUp s4))\<rparr>
                else s4)"
  define s6 where "s6 = (if k GLFW_KEY_E
                then s5\<lparr>cameraPos := vsub (cameraPos s5) (smul sp (cameraUp s5))\<rparr>
                else s5)"
  define s7 where "s7 = (if k GLFW_KEY_P
                then (if \<not> pKeyPressed s6
                      then s6\<lparr>orthographicProjection := False, pKeyPressed := True,
                              cout := cout s6 @ [''Switched to Perspective Projection'']\<rparr>
                      else s6)
                else s6\<lparr>pKeyPressed := False\<rparr>)"
  define s8 where "s8 = (if k GLFW_KEY_O
                then (if \<not> oKeyPressed s7
                      then s7\<lparr>orthographicProjection := True, oKeyPressed := True,
                              cout := cout s7 @ [''Switched to Orthographic Projection'']\<rparr>
                      else s7)
                else s7\<lparr>oKeyPressed := False\<rparr>)"
  have e0: "s0 = s\<lparr>windowShouldClose := w\<rparr>"
    by (simp add: s0_def w_def)
  have sp0: "movementSpeed s0 * deltaTime s0 = sp"
    by (simp add: e0 sp_def)
  have e1: "s1 = s\<lparr>cameraPos := p1, windowShouldClose := w\<rparr>"
    by (simp add: s1_def e0 p1_def)
  have e2: "s2 = s\<lparr>cameraPos := p2, windowShouldClose := w\<rparr>"
    by (simp add: s2_def e1 p2_def)
  have e3: "s3 = s\<lparr>cameraPos := p3, windowShouldClose := w\<rparr>"
    by (simp add: s3_def e2 p3_def right_def)
  have e4: "s4 = s\<lparr>cameraPos := p4, windowShouldClose := w\<rparr>"
    by (simp add: s4_def e3 p4_def right_def)
  have e5: "s5 = s\<lparr>cameraPos := p5, windowShouldClose := w\<rparr>"
    by (simp add: s5_def e4 p5_def)
  have e6: "s6 = s\<lparr>cameraPos := p6, windowShouldClose := w\<rparr>"
    by (simp add: s6_def e5 p6_def)
  have e7: "s7 = s\<lparr>cameraPos := p6,
      orthographicProjection :=
        (if k GLFW_KEY_P \<and> \<not> pKeyPressed s then False else orthographicProjection s),
      pKeyPressed := k GLFW_KEY_P,
      windowShouldClose := w,
      cout := cout s @
        (if k GLFW_KEY_P \<and> \<not> pKeyPressed s then [''Switched to Perspective Projection''] else [])\<rparr>"
    by (simp add: s7_def e6)
  have e8: "s8 = s\<lparr>cameraPos := p6,
      orthographicProjection :=
         (if k GLFW_KEY_O \<and> \<not> oKeyPressed s then True
          else if k GLFW_KEY_P \<and> \<not> pKeyPressed s then False
          else orthographicProjection s),
      pKeyPressed := k GLFW_KEY_P,
      oKeyPressed := k GLFW_KEY_O,
      windowShouldClose := w,
      cout := cout s
         @ (if k GLFW_KEY_P \<and> \<not> pKeyPressed s then [''Switched to Perspective Projection''] else [])
         @ (if k GLFW_KEY_O \<and> \<not> oKeyPressed s then [''Switched to Orthographic Projection''] else [])\<rparr>"
    by (simp add: s8_def e7)
  have "ProcessKeyboardEvents s k = s8"
    unfolding ProcessKeyboardEvents_def Let_def s8_def s7_def s6_def s5_def s4_def s3_def s2_def
      s1_def sp0 [symmetric] s0_def
    by (rule refl)
  also note e8
  finally show ?thesis
    unfolding Let_def p6_def p5_def p4_def p3_def p2_def p1_def sp_def right_def w_def .
qed

lemma PrepareSceneView_fst:
  "fst (PrepareSceneView s p currentFrame k) =
     ProcessKeyboardEvents (s\<lparr>deltaTime := currentFrame - lastFrame s, lastFrame := currentFrame\<rparr>) k"
  by (simp add: PrepareSceneView_def Let_def split: option.split)

lemma ProcessKeyboardEvents_cameraPos:
  "cameraPos (ProcessKeyboardEvents s k) =
     foldl (\<lambda>p key. if k key
                     then vadd p (smul (movementSpeed s * deltaTime s) (spec_key_direction s key))
                     else p)
       (cameraPos s)
       [GLFW_KEY_W, GLFW_KEY_S, GLFW_KEY_A, GLFW_KEY_D, GLFW_KEY_Q, GLFW_KEY_E]"
  by (simp add: ProcessKeyboardEvents_eq Let_def spec_key_direction_def vec_simps)

text \<open>
  C6 (amended). In a frame, each pressed movement key displaces the position by
  \<open>movementSpeed * deltaTime\<close> along its direction: W along the stored front
  vector and S against it, D along \<open>normalize (cross front up)\<close> and A against it,
  Q along up and E against it. With \<open>deltaTime = 0\<close> the position stays whatever
  the keys. With \<open>deltaTime = 0.5\<close>, speed 2.5 and W alone, the position moves by
  exactly 1.25 times the stored front vector, which is the normalised front vector
  when the stored one has length 1, as it has after every cursor-moved event.
\<close>

theorem keyboard_movement:
  "cameraPos (ProcessKeyboardEvents s k) =
     foldl (\<lambda>p key. if k key
                     then vadd p (smul (movementSpeed s * deltaTime s) (spec_key_direction s key))
                     else p)
       (cameraPos s)
       [GLFW_KEY_W, GLFW_KEY_S, GLFW_KEY_A, GLFW_KEY_D, GLFW_KEY_Q, GLFW_KEY_E] \<and>
   (deltaTime s = 0 \<longrightarrow> cameraPos (ProcessKeyboardEvents s k) = cameraPos s) \<and>
   (deltaTime s = 0.5 \<and> movementSpeed s = 2.5 \<and> k GLFW_KEY_W \<and> \<not> k GLFW_KEY_S \<and>
    \<not> k GLFW_KEY_A \<and> \<not> k GLFW_KEY_D \<and> \<not> k GLFW_KEY_Q \<and> \<not> k GLFW_KEY_E \<longrightarrow>
      cameraPos (ProcessKeyboardEvents s k) = vadd (cameraPos s) (smul 1.25 (cameraFront s)) \<and>
      (glm_dot (cameraFront s) (cameraFront s) = 1 \<longrightarrow>
         cameraPos (ProcessKeyboardEvents s k) =
           vadd (cameraPos s) (smul 1.25 (glm_normalize (cameraFront s)))))"
proof (intro conjI impI)
  show "cameraPos (ProcessKeyboardEvents s k) =
     foldl (\<lambda>p key. if k key
                     then vadd p (smul (movementSpeed s * deltaTime s) (spec_key_direction s key))
                     else p)
       (cameraPos s)
       [GLFW_KEY_W, GLFW_KEY_S, GLFW_KEY_A, GLFW_KEY_D, GLFW_KEY_Q, GLFW_KEY_E]"
    by (rule ProcessKeyboardEvents_cameraPos)
next
  assume "deltaTime s = 0"
  then show "cameraPos (ProcessKeyboardEvents s k) = cameraPos s"
    by (simp add: ProcessKeyboardEvents_cameraPos vec_simps)
next
  assume h: "deltaTime s = 0.5 \<and> movementSpeed s = 2.5 \<and> k GLFW_KEY_W \<and> \<not> k GLFW_KEY_S \<and>
    \<not> k GLFW_KEY_A \<and> \<not> k GLFW_KEY_D \<and> \<not> k GLFW_KEY_Q \<and> \<not> k GLFW_KEY_E"
  then have d: "deltaTime s = 0.5" and m: "movementSpeed s = 2.5"
    by blast+
  have sp: "movementSpeed s * deltaTime s = 1.25"
    unfolding d m by simp
  from h show w: "cameraPos (ProcessKeyboardEvents s k) =
      vadd (cameraPos s) (smul 1.25 (cameraFront s))"
    unfolding ProcessKeyboardEvents_cameraPos sp by (simp add: spec_key_direction_def)
  assume "glm_dot (cameraFront s) (cameraFront s) = 1"
  then show "cameraPos (ProcessKeyboardEvents s k) =
      vadd (cameraPos s) (smul 1.25 (glm_normalize (cameraFront s)))"
    by (simp add: w glm_normalize_unit)
qed

theorem keyboard_movement_witness:
  "deltaTime initial_state = 0 \<and>
   cameraPos (ProcessKeyboardEvents initial_state ((=) GLFW_KEY_W)) = Vec3 0 3 12 \<and>
   cameraPos (ProcessKeyboardEvents
      ((Mouse_Position_Callback initial_state 500 400)\<lparr>deltaTime := 0.5\<rparr>) ((=) GLFW_KEY_W)) =
     Vec3 0 3 10.75"
proof -
  let ?s = "(Mouse_Position_Callback initial_state 500 400)\<lparr>deltaTime := 0.5\<rparr>"
  have front: "cameraFront ?s = Vec3 0 0 (- 1)" "cameraPos ?s = Vec3 0 3 12"
    "deltaTime ?s = 0.5" "movementSpeed ?s = 2.5"
    by (simp_all add: Mouse_Position_Callback_def initial_state_def Let_def glm_radians_simps
      glm_normalize_def glm_dot_def smul_def)
  have z: "deltaTime initial_state = 0" "cameraPos initial_state = Vec3 0 3 12"
    by (simp_all add: initial_state_def)
  from keyboard_movement [of initial_state "(=) GLFW_KEY_W", THEN conjunct2, THEN conjunct1]
       keyboard_movement [of ?s "(=) GLFW_KEY_W", THEN conjunct2, THEN conjunct2]
  show ?thesis
    unfolding front z by (simp add: glm_dot_def glm_normalize_def smul_def vadd_def)
qed

text \<open>
  C6 as stated fails before the first cursor-moved event: the stored front vector is
  the seed \<open>(0, -0.2, -1)\<close> of length \<open>sqrt 1.04\<close>. The first frame, half a
  second after the start and with W alone, moves the position by 1.25 times the seed,
  to \<open>(0, 2.75, 10.75)\<close>, not by 1.25 times the normalised front vector.
\<close>

theorem forward_step_counterexample:
  "deltaTime (fst (PrepareSceneView initial_state None 0.5 ((=) GLFW_KEY_W))) = 0.5 \<and>
   movementSpeed (fst (PrepareSceneView initial_state None 0.5 ((=) GLFW_KEY_W))) = 2.5 \<and>
   cameraPos (fst (PrepareSceneView initial_state None 0.5 ((=) GLFW_KEY_W))) = Vec3 0 2.75 10.75 \<and>
   cameraPos (fst (PrepareSceneView initial_state None 0.5 ((=) GLFW_KEY_W))) \<noteq>
     vadd (cameraPos initial_state) (smul 1.25 (glm_normalize (cameraFront initial_state)))"
proof -
  have "sqrt (26 / 25) \<noteq> 1"
    by simp
  then show ?thesis
    by (simp add: PrepareSceneView_fst ProcessKeyboardEvents_eq Let_def initial_state_def
      vadd_def smul_def glm_normalize_def glm_dot_def)
qed

lemma PrepareSceneView_projection:
  "uniform_of (snd (PrepareSceneView s (Some sh) currentFrame k)) g_ProjectionName =
     Some (UMat4
       (if orthographicProjection (fst (PrepareSceneView s (Some sh) currentFrame k))
        then Ortho (- 15 * (WINDOW_WIDTH / WINDOW_HEIGHT) / 2) (15 * (WINDOW_WIDTH / WINDOW_HEIGHT) / 2)
               (- 15 / 2) (15 / 2) 0.1 100
        else Perspective (glm_radians (fov (fst (PrepareSceneView s (Some sh) currentFrame k))))
               (WINDOW_WIDTH / WINDOW_HEIGHT) 0.1 100))"
  unfolding PrepareSceneView_fst
  by (simp add: PrepareSceneView_def Let_def uniform_of_def setVec3Value_def setMat4Value_def
      g_ProjectionName_def)

text \<open>No function writes \<open>fov\<close>: it keeps the 45 degrees of the initial state.\<close>

lemma fov_unchanged:
  "fov (Mouse_Position_Callback s xpos ypos) = fov s"
  "fov (Mouse_Scroll_Callback s xoffset yoffset) = fov s"
  "fov (ProcessKeyboardEvents s k) = fov s"
  "fov (fst (PrepareSceneView s p currentFrame k)) = fov s"
  by (simp_all add: Mouse_Position_Callback_def Mouse_Scroll_Callback_def Let_def
      PrepareSceneView_fst ProcessKeyboardEvents_eq)

text \<open>
  C3 (amended). With a shader manager present, \<open>PrepareSceneView\<close> stores under
  \<open>projection\<close>: when \<open>orthographicProjection\<close> is true (as it is after the keys
  of this frame are processed), a symmetric orthographic frustum of half-height
  \<open>15 / 2 = 7.5\<close> and half-width \<open>7.5\<close> times the window aspect ratio, near 0.1,
  far 100; when it is false, a perspective frustum with the vertical field of view of
  45 degrees that \<open>fov\<close> holds, the window aspect ratio, near 0.1, far 100.
\<close>

theorem projection_frustum:
  assumes "fov s = 45"
  shows "uniform_of (snd (PrepareSceneView s (Some sh) currentFrame k)) g_ProjectionName =
     Some (UMat4
       (if orthographicProjection (fst (PrepareSceneView s (Some sh) currentFrame k))
        then Ortho (- (15 / 2 * (WINDOW_WIDTH / WINDOW_HEIGHT))) (15 / 2 * (WINDOW_WIDTH / WINDOW_HEIGHT))
               (- (15 / 2)) (15 / 2) 0.1 100
        else Perspective (glm_radians 45) (WINDOW_WIDTH / WINDOW_HEIGHT) 0.1 100))"
proof -
  have "fov (fst (PrepareSceneView s (Some sh) currentFrame k)) = 45"
    using assms by (simp add: fov_unchanged)
  then show ?thesis
    unfolding PrepareSceneView_projection by simp
qed

theorem projection_frustum_witness:
  "fov initial_state = 45 \<and>
   uniform_of (snd (PrepareSceneView initial_state (Some Map.empty) 0 ((=) GLFW_KEY_O)))
     g_ProjectionName = Some (UMat4 (Ortho (- 9.375) 9.375 (- 7.5) 7.5 0.1 100)) \<and>
   uniform_of (snd (PrepareSceneView initial_state (Some Map.empty) 0 ((=) GLFW_KEY_W)))
     g_ProjectionName = Some (UMat4 (Perspective (glm_radians 45) 1.25 0.1 100))"
proof -
  have f: "fov initial_state = 45"
    by (simp add: initial_state_def)
  have o: "orthographicProjection
      (fst (PrepareSceneView initial_state (Some Map.empty) 0 ((=) GLFW_KEY_O)))"
    "\<not> orthographicProjection
      (fst (PrepareSceneView initial_state (Some Map.empty) 0 ((=) GLFW_KEY_W)))"
    by (simp_all add: PrepareSceneView_fst ProcessKeyboardEvents_eq initial_state_def)
  from projection_frustum [OF f, of Map.empty 0 "(=) GLFW_KEY_O"]
       projection_frustum [OF f, of Map.empty 0 "(=) GLFW_KEY_W"]
  show ?thesis
    by (simp add: f o WINDOW_WIDTH_def WINDOW_HEIGHT_def)
qed

text \<open>
  C3 as stated fails: pressing O in the first frame selects the orthographic frustum,
  whose half-height is 7.5: neither 15 nor 15 times the aspect ratio. The 15 of the
  source is the full height, and it is the width that the aspect ratio scales.
\<close>

theorem orthographic_half_height_counterexample:
  "uniform_of (snd (PrepareSceneView initial_state (Some Map.empty) 0 ((=) GLFW_KEY_O)))
     g_ProjectionName = Some (UMat4 (Ortho (- 9.375) 9.375 (- 7.5) 7.5 0.1 100)) \<and>
   ortho_top (Ortho (- 9.375) 9.375 (- 7.5) 7.5 0.1 100) \<noteq> 15 \<and>
   ortho_top (Ortho (- 9.375) 9.375 (- 7.5) 7.5 0.1 100) \<noteq> 15 * (WINDOW_WIDTH / WINDOW_HEIGHT)"
proof -
  have o: "orthographicProjection
      (fst (PrepareSceneView initial_state (Some Map.empty) 0 ((=) GLFW_KEY_O)))"
    by (simp add: PrepareSceneView_fst ProcessKeyboardEvents_eq initial_state_def)
  show ?thesis
    unfolding PrepareSceneView_projection
    by (simp add: o WINDOW_WIDTH_def WINDOW_HEIGHT_def)
qed


lemma PrepareSceneView_cout:
  "cout (fst (PrepareSceneView s p currentFrame k)) =
     cout s
       @ (if k GLFW_KEY_P \<and> \<not> pKeyPressed s then [''Switched to Perspective Projection''] else [])
       @ (if k GLFW_KEY_O \<and> \<not> oKeyPressed s then [''Switched to Orthographic Projection''] else [])"
  by (simp add: PrepareSceneView_fst ProcessKeyboardEvents_eq)

lemma PrepareSceneView_keys:
  "pKeyPressed (fst (PrepareSceneView s p currentFrame k)) = k GLFW_KEY_P"
  "oKeyPressed (fst (PrepareSceneView s p currentFrame k)) = k GLFW_KEY_O"
  by (simp_all add: PrepareSceneView_fst ProcessKeyboardEvents_eq)

lemma frames_held_P:
  "pKeyPressed (fst c) \<Longrightarrow> \<forall>g \<in> set fs. snd g GLFW_KEY_P \<Longrightarrow>
   count_list (cout (fst (frames c fs))) ''Switched to Perspective Projection'' =
   count_list (cout (fst c)) ''Switched to Perspective Projection''"
proof (induction fs arbitrary: c)
  case Nil
  then show ?case by simp
next
  case (Cons f fs)
  let ?c = "PrepareSceneView (fst c) (snd c) (fst f) (snd f)"
  have "pKeyPressed (fst ?c)"
    using Cons.prems(2) by (simp add: PrepareSceneView_keys)
  moreover have "\<forall>g \<in> set fs. snd g GLFW_KEY_P"
    using Cons.prems(2) by simp
  ultimately have "count_list (cout (fst (frames ?c fs))) ''Switched to Perspective Projection'' =
      count_list (cout (fst ?c)) ''Switched to Perspective Projection''"
    by (rule Cons.IH)
  then show ?case
    using Cons.prems(1) by (simp add: PrepareSceneView_cout)
qed

lemma frames_held_O:
  "oKeyPressed (fst c) \<Longrightarrow> \<forall>g \<in> set fs. snd g GLFW_KEY_O \<Longrightarrow>
   count_list (cout (fst (frames c fs))) ''Switched to Orthographic Projection'' =
   count_list (cout (fst c)) ''Switched to Orthographic Projection''"
proof (induction fs arbitrary: c)
  case Nil
  then show ?case by simp
next
  case (Cons f fs)
  let ?c = "PrepareSceneView (fst c) (snd c) (fst f) (snd f)"
  have "oKeyPressed (fst ?c)"
    using Cons.prems(2) by (simp add: PrepareSceneView_keys)
  moreover have "\<forall>g \<in> set fs. snd g GLFW_KEY_O"
    using Cons.prems(2) by simp
  ultimately have "count_list (cout (fst (frames ?c fs))) ''Switched to Orthographic Projection'' =
      count_list (cout (fst ?c)) ''Switched to Orthographic Projection''"
    by (rule Cons.IH)
  then show ?case
    using Cons.prems(1) by (simp add: PrepareSceneView_cout)
qed

text \<open>
  C7. Take a run of consecutive frames \<open>f # fs\<close> with P pressed in each of them.
  The line \<open>Switched to Perspective Projection\<close> is printed, and the mode set by the
  same branch, once in the first frame when P was released before it
  (\<open>pKeyPressed\<close> false) and not at all otherwise; the later frames of the run print
  nothing more. The same holds for O, \<open>oKeyPressed\<close> and the orthographic line. The
  other keys of the frames are arbitrary, so each key depends on its own flag only.
  In every frame the mode is written only on such a transition (the one of O last),
  and each flag becomes the state of its key.
\<close>

theorem mode_keys_edge_triggered:
  "((\<forall>g \<in> set (f # fs). snd g GLFW_KEY_P) \<longrightarrow>
     count_list (cout (fst (frames (s, p) [f]))) ''Switched to Perspective Projection'' =
       count_list (cout s) ''Switched to Perspective Projection'' + (if pKeyPressed s then 0 else 1) \<and>
     count_list (cout (fst (frames (s, p) (f # fs)))) ''Switched to Perspective Projection'' =
       count_list (cout (fst (frames (s, p) [f]))) ''Switched to Perspective Projection'') \<and>
   ((\<forall>g \<in> set (f # fs). snd g GLFW_KEY_O) \<longrightarrow>
     count_list (cout (fst (frames (s, p) [f]))) ''Switched to Orthographic Projection'' =
       count_list (cout s) ''Switched to Orthographic Projection'' + (if oKeyPressed s then 0 else 1) \<and>
     count_list (cout (fst (frames (s, p) (f # fs)))) ''Switched to Orthographic Projection'' =
       count_list (cout (fst (frames (s, p) [f]))) ''Switched to Orthographic Projection'') \<and>
   orthographicProjection (fst (frames (s, p) [f])) =
     (if snd f GLFW_KEY_O \<and> \<not> oKeyPressed s then True
      else if snd f GLFW_KEY_P \<and> \<not> pKeyPressed s then False
      else orthographicProjection s) \<and>
   pKeyPressed (fst (frames (s, p) [f])) = snd f GLFW_KEY_P \<and>
   oKeyPressed (fst (frames (s, p) [f])) = snd f GLFW_KEY_O"
proof (intro conjI impI)
  let ?c = "PrepareSceneView s p (fst f) (snd f)"
  show "orthographicProjection (fst (frames (s, p) [f])) =
     (if snd f GLFW_KEY_O \<and> \<not> oKeyPressed s then True
      else if snd f GLFW_KEY_P \<and> \<not> pKeyPressed s then False
      else orthographicProjection s)"
    by (simp add: PrepareSceneView_fst ProcessKeyboardEvents_eq)
  show "pKeyPressed (fst (frames (s, p) [f])) = snd f GLFW_KEY_P"
    "oKeyPressed (fst (frames (s, p) [f])) = snd f GLFW_KEY_O"
    by (simp_all add: PrepareSceneView_keys)
  {
    assume h: "\<forall>g \<in> set (f # fs). snd g GLFW_KEY_P"
    then show "count_list (cout (fst (frames (s, p) [f]))) ''Switched to Perspective Projection'' =
       count_list (cout s) ''Switched to Perspective Projection'' + (if pKeyPressed s then 0 else 1)"
      by (simp add: PrepareSceneView_cout)
    have "pKeyPressed (fst ?c)" "\<forall>g \<in> set fs. snd g GLFW_KEY_P"
      using h by (simp_all add: PrepareSceneView_keys)
    from frames_held_P [OF this]
    show "count_list (cout (fst (frames (s, p) (f # fs)))) ''Switched to Perspective Projection'' =
       count_list (cout (fst (frames (s, p) [f]))) ''Switched to Perspective Projection''"
      by simp
  }
  {
    assume h: "\<forall>g \<in> set (f # fs). snd g GLFW_KEY_O"
    then show "count_list (cout (fst (frames (s, p) [f]))) ''Switched to Orthographic Projection'' =
       count_list (cout s) ''Switched to Orthographic Projection'' + (if oKeyPressed s then 0 else 1)"
      by (simp add: PrepareSceneView_cout)
    have "oKeyPressed (fst ?c)" "\<forall>g \<in> set fs. snd g GLFW_KEY_O"
      using h by (simp_all add: PrepareSceneView_keys)
    from frames_held_O [OF this]
    show "count_list (cout (fst (frames (s, p) (f # fs)))) ''Switched to Orthographic Projection'' =
       count_list (cout (fst (frames (s, p) [f]))) ''Switched to Orthographic Projection''"
      by simp
  }
qed

theorem mode_keys_edge_triggered_witness:
  "count_list (cout (fst (frames (initial_state, None)
      [(0.1, (=) GLFW_KEY_P), (0.2, (=) GLFW_KEY_P), (0.3, (=) GLFW_KEY_P)])))
      ''Switched to Perspective Projection'' = 1 \<and>
   count_list (cout (fst (frames (initial_state, None)
      [(0.1, (=) GLFW_KEY_O), (0.2, (=) GLFW_KEY_O), (0.3, (=) GLFW_KEY_O)])))
      ''Switched to Orthographic Projection'' = 1"
proof -
  have i: "cout initial_state = []" "\<not> pKeyPressed initial_state" "\<not> oKeyPressed initial_state"
    by (simp_all add: initial_state_def)
  have hp: "\<forall>g \<in> set [(0.1 :: real, (=) GLFW_KEY_P), (0.2, (=) GLFW_KEY_P), (0.3, (=) GLFW_KEY_P)].
      snd g GLFW_KEY_P"
    by simp
  have ho: "\<forall>g \<in> set [(0.1 :: real, (=) GLFW_KEY_O), (0.2, (=) GLFW_KEY_O), (0.3, (=) GLFW_KEY_O)].
      snd g GLFW_KEY_O"
    by simp
  from mode_keys_edge_triggered [of "(0.1, (=) GLFW_KEY_P)"
         "[(0.2, (=) GLFW_KEY_P), (0.3, (=) GLFW_KEY_P)]" initial_state None,
         THEN conjunct1, THEN mp, OF hp]
       mode_keys_edge_triggered [of "(0.1, (=) GLFW_KEY_O)"
         "[(0.2, (=) GLFW_KEY_O), (0.3, (=) GLFW_KEY_O)]" initial_state None,
         THEN conjunct2, THEN conjunct1, THEN mp, OF ho]
  show ?thesis
    by (simp add: i)
qed


section \<open>Properties of the texture and material tables\<close>

text \<open>
  C8. When \<open>CreateGLTexture\<close> fails, that is when the decoder returns no image or
  an image whose channel count is neither 3 nor 4, it returns false and the registry
  is as before: \<open>m_textureIDs\<close> and \<open>m_loadedTextures\<close> are unchanged.
  Conversely, every call that returns false is one of these two cases and leaves the
  registry as it was.
\<close>

theorem CreateGLTexture_failure_atomic:
  "((stbi_load = None \<or>
     (\<exists>im. stbi_load = Some im \<and> colorChannels im \<noteq> 3 \<and> colorChannels im \<noteq> 4)) \<longrightarrow>
      (\<exists>s'. CreateGLTexture s filename t stbi_load glGenTextures = Inr (False, s') \<and>
            m_textureIDs s' = m_textureIDs s \<and> m_loadedTextures s' = m_loadedTextures s)) \<and>
   (CreateGLTexture s filename t stbi_load glGenTextures = Inr (False, s'') \<longrightarrow>
      m_textureIDs s'' = m_textureIDs s \<and> m_loadedTextures s'' = m_loadedTextures s \<and>
      (stbi_load = None \<or>
       (\<exists>im. stbi_load = Some im \<and> colorChannels im \<noteq> 3 \<and> colorChannels im \<noteq> 4)))"
  by (cases stbi_load) (auto simp add: CreateGLTexture_def Let_def split: if_splits)

theorem CreateGLTexture_failure_atomic_witness:
  "CreateGLTexture (SceneManager None [\<lparr>ID = 0, tag = ''''\<rparr>]) ''a.jpg'' ''a'' None 1 =
     Inr (False, (SceneManager None [\<lparr>ID = 0, tag = ''''\<rparr>])
                   \<lparr>scene_cout := [Could_not_load_image ''a.jpg'']\<rparr>) \<and>
   m_loadedTextures (SceneManager None [\<lparr>ID = 0, tag = ''''\<rparr>]) = 0 \<and>
   CreateGLTexture (SceneManager None [\<lparr>ID = 0, tag = ''''\<rparr>]) ''b.jpg'' ''b''
       (Some \<lparr>width = 2, height = 2, colorChannels = 1\<rparr>) 1 =
     Inr (False, (SceneManager None [\<lparr>ID = 0, tag = ''''\<rparr>])
                   \<lparr>scene_cout := [Successfully_loaded_image ''b.jpg'' 2 2 1,
                                   Not_implemented_channels 1]\<rparr>)"
proof -
  let ?s = "SceneManager None [\<lparr>ID = 0, tag = ''''\<rparr>]"
  have c: "CreateGLTexture ?s ''a.jpg'' ''a'' None 1 =
     Inr (False, ?s\<lparr>scene_cout := [Could_not_load_image ''a.jpg'']\<rparr>)"
    by (simp add: CreateGLTexture_def SceneManager_def)
  have h: "Some \<lparr>width = 2, height = 2, colorChannels = 1\<rparr> = None \<or>
     (\<exists>im. Some \<lparr>width = 2, height = 2, colorChannels = 1\<rparr> = Some im \<and>
           colorChannels im \<noteq> 3 \<and> colorChannels im \<noteq> 4)"
    by simp
  from CreateGLTexture_failure_atomic [of None ?s "''a.jpg''" "''a''" 1, THEN conjunct2, THEN mp, OF c]
       CreateGLTexture_failure_atomic [of "Some \<lparr>width = 2, height = 2, colorChannels = 1\<rparr>" ?s
         "''b.jpg''" "''b''" 1, THEN conjunct1, THEN mp, OF h]
  show ?thesis
    by (simp add: c) (auto simp add: SceneManager_def CreateGLTexture_def)
qed

lemma FindTextureID_while_absent:
  "bFound = False \<Longrightarrow> m_loadedTextures s \<le> length (m_textureIDs s) \<Longrightarrow>
   \<forall>i < m_loadedTextures s. tag (m_textureIDs s ! i) \<noteq> t \<Longrightarrow>
   FindTextureID_while s t textureID index bFound = Inr textureID"
proof (induction s t textureID index bFound rule: FindTextureID_while.induct)
  case (1 s t textureID index bFound)
  show ?case
  proof (cases "index < m_loadedTextures s")
    case True
    with "1.prems" have "index < length (m_textureIDs s)" "tag (m_textureIDs s ! index) \<noteq> t"
      by simp_all
    with True "1.prems" "1.IH"(2) show ?thesis
      by (subst FindTextureID_while.simps) simp
  next
    case False
    then show ?thesis
      by (subst FindTextureID_while.simps) simp
  qed
qed

lemma FindTextureSlot_while_absent:
  "bFound = False \<Longrightarrow> m_loadedTextures s \<le> length (m_textureIDs s) \<Longrightarrow>
   \<forall>i < m_loadedTextures s. tag (m_textureIDs s ! i) \<noteq> t \<Longrightarrow>
   FindTextureSlot_while s t textureSlot index bFound = Inr textureSlot"
proof (induction s t textureSlot index bFound rule: FindTextureSlot_while.induct)
  case (1 s t textureSlot index bFound)
  show ?case
  proof (cases "index < m_loadedTextures s")
    case True
    with "1.prems" have "index < length (m_textureIDs s)" "tag (m_textureIDs s ! index) \<noteq> t"
      by simp_all
    with True "1.prems" "1.IH"(2) show ?thesis
      by (subst FindTextureSlot_while.simps) simp
  next
    case False
    then show ?thesis
      by (subst FindTextureSlot_while.simps) simp
  qed
qed

lemma FindMaterial_while_absent:
  "bFound = False \<Longrightarrow> \<forall>m \<in> set (m_objectMaterials s). material_tag m \<noteq> t \<Longrightarrow>
   FindMaterial_while s t material index bFound = (False, material)"
proof (induction s t material index bFound rule: FindMaterial_while.induct)
  case (1 s t material index bFound)
  show ?case
  proof (cases "index < length (m_objectMaterials s)")
    case True
    with "1.prems" have "material_tag (m_objectMaterials s ! index) \<noteq> t"
      by simp
    with True "1.prems" "1.IH"(2) show ?thesis
      by (subst FindMaterial_while.simps) simp
  next
    case False
    with "1.prems" show ?thesis
      by (subst FindMaterial_while.simps) simp
  qed
qed

text \<open>
  C9. In a scene whose count of loaded textures does not exceed the array, a tag that
  none of the loaded textures carries makes \<open>FindTextureID\<close> and
  \<open>FindTextureSlot\<close> return \<open>-1\<close>, and \<open>SetShaderTexture\<close> stores that
  \<open>-1\<close> in the sampler uniform \<open>objectTexture\<close> (after setting
  \<open>bUseTexture\<close>), with no check. A tag that no material carries makes
  \<open>FindMaterial\<close> return false with the caller's material untouched, and
  \<open>SetShaderMaterial\<close> then changes nothing; neither raises a fault.
\<close>

theorem absent_tag_lookups:
  "(m_loadedTextures s \<le> length (m_textureIDs s) \<and>
    (\<forall>i < m_loadedTextures s. tag (m_textureIDs s ! i) \<noteq> t) \<longrightarrow>
      FindTextureID s t = Inr (- 1) \<and>
      FindTextureSlot s t = Inr (- 1) \<and>
      (\<forall>sh. m_pShaderManager s = Some sh \<longrightarrow>
         SetShaderTexture s t =
           Inr (s\<lparr>m_pShaderManager :=
                  Some (sh(g_UseTextureName \<mapsto> UInt 1, g_TextureValueName \<mapsto> USampler2D (- 1)))\<rparr>))) \<and>
   ((\<forall>m \<in> set (m_objectMaterials s). material_tag m \<noteq> mt) \<longrightarrow>
      FindMaterial s mt material = (False, material) \<and>
      SetShaderMaterial s material mt = Inr s)"
proof (intro conjI impI allI)
  {
    assume h: "m_loadedTextures s \<le> length (m_textureIDs s) \<and>
      (\<forall>i < m_loadedTextures s. tag (m_textureIDs s ! i) \<noteq> t)"
    then show "FindTextureID s t = Inr (- 1)"
      by (simp add: FindTextureID_def FindTextureID_while_absent)
    from h show slot: "FindTextureSlot s t = Inr (- 1)"
      by (simp add: FindTextureSlot_def FindTextureSlot_while_absent)
    fix sh
    assume sh: "m_pShaderManager s = Some sh"
    let ?s1 = "s\<lparr>m_pShaderManager := Some (setIntValue sh g_UseTextureName 1)\<rparr>"
    from h have "FindTextureSlot ?s1 t = Inr (- 1)"
      by (simp add: FindTextureSlot_def FindTextureSlot_while_absent)
    with sh show "SetShaderTexture s t =
           Inr (s\<lparr>m_pShaderManager :=
                  Some (sh(g_UseTextureName \<mapsto> UInt 1, g_TextureValueName \<mapsto> USampler2D (- 1)))\<rparr>)"
      by (simp add: SetShaderTexture_def Let_def setIntValue_def setSampler2DValue_def)
  }
  {
    assume h: "\<forall>m \<in> set (m_objectMaterials s). material_tag m \<noteq> mt"
    then show f: "FindMaterial s mt material = (False, material)"
      by (simp add: FindMaterial_def FindMaterial_while_absent)
    then show "SetShaderMaterial s material mt = Inr s"
      by (simp add: SetShaderMaterial_def)
  }
qed


theorem absent_tag_lookups_witness:
  "FindTextureID example_scene ''wood'' = Inr (- 1) \<and>
   FindTextureSlot example_scene ''wood'' = Inr (- 1) \<and>
   SetShaderTexture example_scene ''wood'' =
     Inr (example_scene\<lparr>m_pShaderManager :=
            Some [g_UseTextureName \<mapsto> UInt 1, g_TextureValueName \<mapsto> USampler2D (- 1)]\<rparr>) \<and>
   FindMaterial example_scene ''wood'' (hd (m_objectMaterials example_scene)) =
     (False, hd (m_objectMaterials example_scene)) \<and>
   SetShaderMaterial example_scene (hd (m_objectMaterials example_scene)) ''wood'' =
     Inr example_scene"
proof -
  have t: "m_loadedTextures example_scene \<le> length (m_textureIDs example_scene) \<and>
    (\<forall>i < m_loadedTextures example_scene. tag (m_textureIDs example_scene ! i) \<noteq> ''wood'')"
    by (simp add: example_scene_def)
  have m: "\<forall>m \<in> set (m_objectMaterials example_scene). material_tag m \<noteq> ''wood''"
    by (simp add: example_scene_def)
  have sh: "m_pShaderManager example_scene = Some Map.empty"
    by (simp add: example_scene_def)
  from absent_tag_lookups [of example_scene "''wood''" "''wood''"
         "hd (m_objectMaterials example_scene)", THEN conjunct1, THEN mp, OF t]
       absent_tag_lookups [of example_scene "''wood''" "''wood''"
         "hd (m_objectMaterials example_scene)", THEN conjunct2, THEN mp, OF m]
       sh
  show ?thesis
    by simp
qed

lemma CreateGLTexture_decoded:
  "colorChannels im = 3 \<or> colorChannels im = 4 \<Longrightarrow>
   CreateGLTexture s filename t (Some im) glGenTextures =
     (if m_loadedTextures s < length (m_textureIDs s)
      then Inr (True,
             s\<lparr>m_textureIDs := (m_textureIDs s)[m_loadedTextures s := \<lparr>ID = glGenTextures, tag = t\<rparr>],
               m_loadedTextures := m_loadedTextures s + 1,
               scene_cout := scene_cout s @
                 [Successfully_loaded_image filename (width im) (height im) (colorChannels im)]\<rparr>)
      else Inl OutOfBounds)"
  by (auto simp add: CreateGLTexture_def Let_def)

lemma load_textures_fit:
  "\<forall>(filename, t, img, tid) \<in> set ls.
      \<exists>im. img = Some im \<and> (colorChannels im = 3 \<or> colorChannels im = 4) \<Longrightarrow>
   m_loadedTextures s + length ls \<le> length (m_textureIDs s) \<Longrightarrow>
   \<exists>s'. load_textures s ls = Inr (replicate (length ls) True, s') \<and>
        m_loadedTextures s' = m_loadedTextures s + length ls \<and>
        length (m_textureIDs s') = length (m_textureIDs s)"
proof (induction ls arbitrary: s)
  case Nil
  then show ?case by simp
next
  case (Cons l ls)
  obtain filename t img tid where l: "l = (filename, t, img, tid)"
    by (cases l) auto
  with Cons.prems(1) obtain im where im: "img = Some im"
    "colorChannels im = 3 \<or> colorChannels im = 4"
    by auto
  let ?s1 = "s\<lparr>m_textureIDs := (m_textureIDs s)[m_loadedTextures s := \<lparr>ID = tid, tag = t\<rparr>],
               m_loadedTextures := m_loadedTextures s + 1,
               scene_cout := scene_cout s @
                 [Successfully_loaded_image filename (width im) (height im) (colorChannels im)]\<rparr>"
  from Cons.prems(2) have c: "CreateGLTexture s filename t img tid = Inr (True, ?s1)"
    unfolding im(1) CreateGLTexture_decoded [OF im(2)] by simp
  have "\<forall>(filename, t, img, tid) \<in> set ls.
      \<exists>im. img = Some im \<and> (colorChannels im = 3 \<or> colorChannels im = 4)"
    using Cons.prems(1) by simp
  moreover have "m_loadedTextures ?s1 + length ls \<le> length (m_textureIDs ?s1)"
    using Cons.prems(2) by simp
  ultimately obtain s' where "load_textures ?s1 ls = Inr (replicate (length ls) True, s')"
    "m_loadedTextures s' = m_loadedTextures ?s1 + length ls"
    "length (m_textureIDs s') = length (m_textureIDs ?s1)"
    using Cons.IH by blast
  then show ?case
    by (simp add: l c)
qed

lemma load_textures_overflow:
  "\<forall>(filename, t, img, tid) \<in> set ls.
      \<exists>im. img = Some im \<and> (colorChannels im = 3 \<or> colorChannels im = 4) \<Longrightarrow>
   length (m_textureIDs s) < m_loadedTextures s + length ls \<Longrightarrow>
   m_loadedTextures s \<le> length (m_textureIDs s) \<Longrightarrow>
   load_textures s ls = Inl OutOfBounds"
proof (induction ls arbitrary: s)
  case Nil
  then show ?case by simp
next
  case (Cons l ls)
  obtain filename t img tid where l: "l = (filename, t, img, tid)"
    by (cases l) auto
  with Cons.prems(1) obtain im where im: "img = Some im"
    "colorChannels im = 3 \<or> colorChannels im = 4"
    by auto
  show ?case
  proof (cases "m_loadedTextures s < length (m_textureIDs s)")
    case True
    let ?s1 = "s\<lparr>m_textureIDs := (m_textureIDs s)[m_loadedTextures s := \<lparr>ID = tid, tag = t\<rparr>],
               m_loadedTextures := m_loadedTextures s + 1,
               scene_cout := scene_cout s @
                 [Successfully_loaded_image filename (width im) (height im) (colorChannels im)]\<rparr>"
    from True have c: "CreateGLTexture s filename t img tid = Inr (True, ?s1)"
      unfolding im(1) CreateGLTexture_decoded [OF im(2)] by simp
    have "\<forall>(filename, t, img, tid) \<in> set ls.
        \<exists>im. img = Some im \<and> (colorChannels im = 3 \<or> colorChannels im = 4)"
      using Cons.prems(1) by simp
    moreover have "length (m_textureIDs ?s1) < m_loadedTextures ?s1 + length ls"
      using Cons.prems(2) by simp
    moreover have "m_loadedTextures ?s1 \<le> length (m_textureIDs ?s1)"
      using True by simp
    ultimately have "load_textures ?s1 ls = Inl OutOfBounds"
      by (rule Cons.IH)
    then show ?thesis
      by (simp add: l c)
  next
    case False
    then have "CreateGLTexture s filename t img tid = Inl OutOfBounds"
      unfolding im(1) CreateGLTexture_decoded [OF im(2)] by simp
    then show ?thesis
      by (simp add: l)
  qed
qed

text \<open>
  C10. \<open>CreateGLTexture\<close> has no capacity check. After a successful decode it
  writes the entry at index \<open>m_loadedTextures\<close> and increments the count; the write
  is inside the array exactly when \<open>m_loadedTextures\<close> is below the array's
  length, and past its end otherwise. With the documented 16 slots and a fresh scene
  manager, up to 16 successful loads all return true, and the 17th (any longer run of
  successful loads) writes past the end of the array.
\<close>

theorem texture_capacity_unchecked:
  "(colorChannels im = 3 \<or> colorChannels im = 4 \<longrightarrow>
      CreateGLTexture s filename t (Some im) glGenTextures =
        (if m_loadedTextures s < length (m_textureIDs s)
         then Inr (True,
                s\<lparr>m_textureIDs := (m_textureIDs s)
                      [m_loadedTextures s := \<lparr>ID = glGenTextures, tag = t\<rparr>],
                  m_loadedTextures := m_loadedTextures s + 1,
                  scene_cout := scene_cout s @
                    [Successfully_loaded_image filename (width im) (height im) (colorChannels im)]\<rparr>)
         else Inl OutOfBounds)) \<and>
   (length slots = MAX_TEXTURES \<and>
    (\<forall>(filename, t, img, tid) \<in> set ls.
        \<exists>im. img = Some im \<and> (colorChannels im = 3 \<or> colorChannels im = 4)) \<longrightarrow>
      (length ls \<le> MAX_TEXTURES \<longrightarrow>
         (\<exists>s'. load_textures (SceneManager p slots) ls = Inr (replicate (length ls) True, s') \<and>
               m_loadedTextures s' = length ls)) \<and>
      (length ls = 17 \<longrightarrow> load_textures (SceneManager p slots) ls = Inl OutOfBounds) \<and>
      (MAX_TEXTURES < length ls \<longrightarrow> load_textures (SceneManager p slots) ls = Inl OutOfBounds))"
proof (intro conjI impI)
  assume "colorChannels im = 3 \<or> colorChannels im = 4"
  then show "CreateGLTexture s filename t (Some im) glGenTextures =
        (if m_loadedTextures s < length (m_textureIDs s)
         then Inr (True,
                s\<lparr>m_textureIDs := (m_textureIDs s)
                      [m_loadedTextures s := \<lparr>ID = glGenTextures, tag = t\<rparr>],
                  m_loadedTextures := m_loadedTextures s + 1,
                  scene_cout := scene_cout s @
                    [Successfully_loaded_image filename (width im) (height im) (colorChannels im)]\<rparr>)
         else Inl OutOfBounds)"
    by (rule CreateGLTexture_decoded)
next
  assume h: "length slots = MAX_TEXTURES \<and>
    (\<forall>(filename, t, img, tid) \<in> set ls.
        \<exists>im. img = Some im \<and> (colorChannels im = 3 \<or> colorChannels im = 4))"
  then have ok: "\<forall>(filename, t, img, tid) \<in> set ls.
        \<exists>im. img = Some im \<and> (colorChannels im = 3 \<or> colorChannels im = 4)"
    by blast
  have st: "m_loadedTextures (SceneManager p slots) = 0"
    "length (m_textureIDs (SceneManager p slots)) = 16"
    using h by (simp_all add: SceneManager_def MAX_TEXTURES_def)
  {
    assume "length ls \<le> MAX_TEXTURES"
    then have "m_loadedTextures (SceneManager p slots) + length ls
        \<le> length (m_textureIDs (SceneManager p slots))"
      by (simp add: st MAX_TEXTURES_def)
    from load_textures_fit [OF ok this]
    show "\<exists>s'. load_textures (SceneManager p slots) ls = Inr (replicate (length ls) True, s') \<and>
               m_loadedTextures s' = length ls"
      by (auto simp add: st)
  }
  {
    assume "MAX_TEXTURES < length ls"
    then have "length (m_textureIDs (SceneManager p slots))
        < m_loadedTextures (SceneManager p slots) + length ls"
      by (simp add: st MAX_TEXTURES_def)
    from load_textures_overflow [OF ok this]
    show "load_textures (SceneManager p slots) ls = Inl OutOfBounds"
      by (simp add: st)
  }
  then show "length ls = 17 \<Longrightarrow> load_textures (SceneManager p slots) ls = Inl OutOfBounds"
    by (simp add: MAX_TEXTURES_def)
qed

theorem texture_capacity_unchecked_witness:
  "length (replicate 16 \<lparr>ID = 0, tag = ''''\<rparr>) = MAX_TEXTURES \<and>
   load_textures (SceneManager None (replicate 16 \<lparr>ID = 0, tag = ''''\<rparr>))
     (replicate 17 (''textures/plate.jpg'', ''plate'',
        Some \<lparr>width = 64, height = 64, colorChannels = 3\<rparr>, 1)) = Inl OutOfBounds"
proof -
  have h: "length (replicate 16 \<lparr>ID = 0 :: 32 word, tag = ''''\<rparr>) = MAX_TEXTURES \<and>
    (\<forall>(filename, t, img, tid) \<in> set (replicate 17 (''textures/plate.jpg'', ''plate'',
        Some \<lparr>width = 64, height = 64, colorChannels = 3\<rparr>, 1 :: 32 word)).
        \<exists>im. img = Some im \<and> (colorChannels im = 3 \<or> colorChannels im = 4))"
    by (simp add: MAX_TEXTURES_def)
  from texture_capacity_unchecked [THEN conjunct2, THEN mp, OF h, THEN conjunct2, THEN conjunct1,
    of None]
  show ?thesis
    by (simp add: MAX_TEXTURES_def)
qed



end
